theory Spec2Isabelle
  imports Main
begin

section \<open>Notification fan-out (functions/src/notifications/publishNotifications.ts)\<close>

subsection \<open>Data\<close>

text \<open>
  The event is the document read by \<^verbatim>\<open>snapshot.after.data()\<close> and cast, unchecked, to
  \<^verbatim>\<open>BillNotification | OrgNotification\<close>. It is modelled as the object the code reads
  at run time: every field the code touches may be present or absent, and reading an
  absent field gives \<^verbatim>\<open>undefined\<close>.
\<close>

datatype jsval = Undefined | Str string

text \<open>Conversion of a value inside a template literal \<^verbatim>\<open>`${v}`\<close>.\<close>

fun toStr :: "jsval \<Rightarrow> string" where
  "toStr Undefined = ''undefined''"
| "toStr (Str s) = s"

record historyEntry =
  Date :: string
  Branch :: string
  Action :: string

record event =
  type :: jsval
  billCourt :: jsval
  billId :: jsval
  billHistory :: "historyEntry list option"
  orgId :: jsval
  testimonyContent :: jsval
  testimonyUser :: jsval
  updateTime :: "nat option"

record notification =
  bodyText :: jsval
  header :: jsval
  court :: jsval
  notif_id :: jsval
  subheader :: jsval
  timestamp :: "nat option"
  notif_type :: jsval
  delivered :: bool

record notificationFields =
  topicName :: string
  uid :: jsval
  notification :: notification
  createdAt :: nat

text \<open>A document of the collection group \<^verbatim>\<open>activeTopicSubscriptions\<close>, as far as the
  fan-out reads it: the field queried (\<^verbatim>\<open>topicName\<close>) and the two fields destructured
  from it (\<^verbatim>\<open>uid\<close>, \<^verbatim>\<open>type\<close>).\<close>

record subscription =
  sub_topicName :: jsval
  sub_uid :: jsval
  sub_type :: jsval

datatype fanout_error =
  InvalidHistoryLength nat
  | InvalidEntity
  | TypeError
  | InvalidCollectionPath
  | InvalidDocumentData

subsection \<open>createNotificationFields\<close>

text \<open>
  The clock \<^verbatim>\<open>Timestamp.now()\<close> is the parameter \<open>now\<close>. The three ways the source
  leaves the function by an exception are the first three errors: the two \<^verbatim>\<open>throw\<close>
  statements, and the \<^verbatim>\<open>TypeError\<close> of reading \<^verbatim>\<open>.length\<close> of an absent history.
  The last two errors are the store's.
\<close>

definition createNotificationFields :: "nat \<Rightarrow> event \<Rightarrow> fanout_error + notificationFields" where
  "createNotificationFields now entity =
     (let result = (\<lambda>topicName' bodyText' subheader'.
            \<lparr>topicName = topicName',
             uid = Str '''',
             notification =
               \<lparr>bodyText = bodyText',
                header = billId entity,
                court = billCourt entity,
                notif_id = billId entity,
                subheader = subheader',
                timestamp = updateTime entity,
                notif_type = type entity,
                delivered = False\<rparr>,
             createdAt = now\<rparr>)
      in if type entity = Str ''bill'' then
           (case billHistory entity of
              None \<Rightarrow> Inl TypeError
            | Some h \<Rightarrow>
                if length h < 1 then Inl (InvalidHistoryLength (length h))
                else
                  (let lastHistoryAction = h ! (length h - 1)
                   in Inr (result
                        (''bill-'' @ toStr (billCourt entity) @ ''-'' @ toStr (billId entity))
                        (Str (Action lastHistoryAction))
                        (Str (Branch lastHistoryAction)))))
         else if type entity = Str ''org'' then
           Inr (result (''org-'' @ toStr (orgId entity))
                  (testimonyContent entity) (testimonyUser entity))
         else Inl InvalidEntity)"

subsection \<open>The store's client\<close>

text \<open>
  The Firestore client is not code of the repository. The source obtains it with
  \<^verbatim>\<open>admin.firestore()\<close> and changes none of its settings, so two of its checks can end a
  run of the fan-out with an exception. They are written here as the client documents
  them.

  \<^verbatim>\<open>db.collection(path)\<close> refuses an empty path, a path that contains \<^verbatim>\<open>//\<close>, and a
  path whose number of non-empty segments is even (such a path names a document, not a
  collection).

  \<^verbatim>\<open>batch.set(ref, data)\<close> refuses data in which some field, at any depth, is
  \<^verbatim>\<open>undefined\<close>.
\<close>

fun hasDoubleSlash :: "string \<Rightarrow> bool" where
  "hasDoubleSlash (a # b # cs) =
     ((a = CHR ''/'' \<and> b = CHR ''/'') \<or> hasDoubleSlash (b # cs))"
| "hasDoubleSlash _ = False"

fun splitSlash :: "string \<Rightarrow> string list" where
  "splitSlash [] = [[]]"
| "splitSlash (c # cs) =
     (if c = CHR ''/'' then [] # splitSlash cs
      else (case splitSlash cs of
              [] \<Rightarrow> [[c]]
            | seg # segs \<Rightarrow> (c # seg) # segs))"

definition validCollectionPath :: "string \<Rightarrow> bool" where
  "validCollectionPath path =
     (path \<noteq> [] \<and> \<not> hasDoubleSlash path
      \<and> odd (length (filter (\<lambda>seg. seg \<noteq> []) (splitSlash path))))"

definition validDocument :: "notificationFields \<Rightarrow> bool" where
  "validDocument d =
     (uid d \<noteq> Undefined
      \<and> bodyText (notification d) \<noteq> Undefined
      \<and> header (notification d) \<noteq> Undefined
      \<and> court (notification d) \<noteq> Undefined
      \<and> notif_id (notification d) \<noteq> Undefined
      \<and> subheader (notification d) \<noteq> Undefined
      \<and> timestamp (notification d) \<noteq> None
      \<and> notif_type (notification d) \<noteq> Undefined)"

subsection \<open>handleNotifications and publishNotifications\<close>

text \<open>The query \<^verbatim>\<open>.where("topicName", "==", t).get()\<close> over the collection group.\<close>

definition whereTopicName :: "subscription list \<Rightarrow> string \<Rightarrow> subscription list" where
  "whereTopicName docs t = filter (\<lambda>d. sub_topicName d = Str t) docs"

text \<open>The topic of the second query, built from the derived notification's own
  \<^verbatim>\<open>court\<close> and \<^verbatim>\<open>id\<close>.\<close>

definition billTopic :: "notificationFields \<Rightarrow> string" where
  "billTopic nf =
     ''bill-'' @ toStr (court (notification nf)) @ ''-'' @ toStr (notif_id (notification nf))"

text \<open>
  The merged list: the records of the first query as they are, then, when the second
  query was made, its records with \<^verbatim>\<open>type\<close> overwritten by \<^verbatim>\<open>bill\<close>.
\<close>

definition combinedSnapshots :: "subscription list \<Rightarrow> notificationFields \<Rightarrow> subscription list" where
  "combinedSnapshots docs nf =
     (let topicNameSnapshot = whereTopicName docs (topicName nf);
          billSnapshot =
            (if notif_type (notification nf) \<noteq> Str ''bill''
             then Some (whereTopicName docs (billTopic nf)) else None)
      in topicNameSnapshot
         @ (case billSnapshot of
              None \<Rightarrow> []
            | Some bdocs \<Rightarrow> map (\<lambda>d. d\<lparr>sub_type := Str ''bill''\<rparr>) bdocs))"

text \<open>
  The body of the loop over the merged list, for one record: the recipient's copy of the
  fields, the collection of the recipient's feed, and the write staged in the batch. The
  identifier that \<^verbatim>\<open>.doc()\<close> generates is fresh and is left out of the staged write.
\<close>

definition newNotificationFields :: "notificationFields \<Rightarrow> subscription \<Rightarrow> notificationFields" where
  "newNotificationFields nf subscription =
     nf\<lparr>uid := sub_uid subscription,
        notification := (notification nf)\<lparr>notif_type := sub_type subscription\<rparr>\<rparr>"

definition feedCollection :: "subscription \<Rightarrow> string" where
  "feedCollection subscription =
     ''users/'' @ toStr (sub_uid subscription) @ ''/userNotificationFeed''"

definition stageNotification ::
  "notificationFields \<Rightarrow> subscription \<Rightarrow> fanout_error + (string \<times> notificationFields)" where
  "stageNotification nf subscription =
     (if \<not> validCollectionPath (feedCollection subscription) then Inl InvalidCollectionPath
      else if \<not> validDocument (newNotificationFields nf subscription) then Inl InvalidDocumentData
      else Inr (feedCollection subscription, newNotificationFields nf subscription))"

text \<open>The loop: the writes staged before the first exception, and that exception.\<close>

fun forEachSubscription ::
  "notificationFields \<Rightarrow> subscription list
     \<Rightarrow> (string \<times> notificationFields) list \<times> fanout_error option" where
  "forEachSubscription nf [] = ([], None)"
| "forEachSubscription nf (subscription # rest) =
     (case stageNotification nf subscription of
        Inl err \<Rightarrow> ([], Some err)
      | Inr w \<Rightarrow>
          (case forEachSubscription nf rest of
             (ws, thrown') \<Rightarrow> (w # ws, thrown')))"

text \<open>
  What one run of \<^verbatim>\<open>handleNotifications\<close> does to its surroundings: the topic names it
  queried, in order, the writes it staged in the batch, in order, and the exception that
  ended it, if any.
\<close>

record fanout =
  queries :: "string list"
  batch :: "(string \<times> notificationFields) list"
  thrown :: "fanout_error option"

definition handleNotifications :: "subscription list \<Rightarrow> nat \<Rightarrow> event \<Rightarrow> fanout" where
  "handleNotifications docs now topic =
     (case createNotificationFields now topic of
        Inl err \<Rightarrow> \<lparr>queries = [], batch = [], thrown = Some err\<rparr>
      | Inr nf \<Rightarrow>
          (case forEachSubscription nf (combinedSnapshots docs nf) of
             (ws, thrown') \<Rightarrow>
               \<lparr>queries = topicName nf #
                   (if notif_type (notification nf) \<noteq> Str ''bill'' then [billTopic nf] else []),
                batch = ws,
                thrown = thrown'\<rparr>))"

text \<open>
  The store: the subscriptions that the queries read, and the notification documents
  committed so far. \<^verbatim>\<open>publishNotifications\<close> returns the exception that aborted the
  invocation, if any, and the store afterwards. An absent document (\<^verbatim>\<open>!topic\<close>) returns
  before anything is done; otherwise the batch is committed after
  \<^verbatim>\<open>handleNotifications\<close> has returned, and only then: an exception in
  \<^verbatim>\<open>handleNotifications\<close> leaves the staged writes uncommitted.
\<close>

record firestore =
  activeTopicSubscriptions :: "subscription list"
  userNotificationFeed :: "(string \<times> notificationFields) list"

definition publishNotifications ::
  "firestore \<Rightarrow> nat \<Rightarrow> event option \<Rightarrow> fanout_error option \<times> firestore" where
  "publishNotifications db now snapshot =
     (case snapshot of
        None \<Rightarrow> (None, db)
      | Some topic \<Rightarrow>
          (let r = handleNotifications (activeTopicSubscriptions db) now topic
           in case thrown r of
                Some err \<Rightarrow> (Some err, db)
              | None \<Rightarrow> (None, db\<lparr>userNotificationFeed := userNotificationFeed db @ batch r\<rparr>)))"

section \<open>Bill listing state (components/db/bills.ts)\<close>

subsection \<open>Data\<close>

text \<open>
  Of a \<^verbatim>\<open>Bill\<close>, the fields that \<^verbatim>\<open>getPageKey\<close> reads. The two timestamps are
  optional in the source. Numbers that hold counts and indices are integers.
\<close>

record Bill =
  bill_id :: string
  cosponsorCount :: int
  testimonyCount :: int
  nextHearingAt :: "nat option"
  latestTestimonyAt :: "nat option"

datatype SortOptions = ById | CosponsorCount | TestimonyCount | LatestTestimony | HearingDate

datatype FilterOptions =
  FilterBill string
  | FilterPrimarySponsor string
  | FilterCommittee string
  | FilterCity string

text \<open>One component of a cursor, and a cursor slot of the cursor list:
  \<^verbatim>\<open>unknown[] | null | undefined\<close>.\<close>

datatype keyval = KNum int | KStr string | KTime nat | KUndefined

datatype pagekey = PUndefined | PNull | PKey "keyval list"

text \<open>
  A JavaScript array of cursor slots: its elements, and the properties that an assignment
  at a negative index creates (they are not elements, do not count in the length, and are
  read back by the same index). A hole left by an assignment past the end reads as
  \<^verbatim>\<open>undefined\<close> and is stored as such.
\<close>

record keyArray =
  elems :: "pagekey list"
  named :: "(int \<times> pagekey) list"

definition aget :: "keyArray \<Rightarrow> int \<Rightarrow> pagekey" where
  "aget a i =
     (if 0 \<le> i then
        (if i < int (length (elems a)) then elems a ! nat i else PUndefined)
      else (case map_of (named a) i of None \<Rightarrow> PUndefined | Some v \<Rightarrow> v))"

definition aset :: "keyArray \<Rightarrow> int \<Rightarrow> pagekey \<Rightarrow> keyArray" where
  "aset a i v =
     (if 0 \<le> i then
        (if i < int (length (elems a)) then a\<lparr>elems := (elems a)[nat i := v]\<rparr>
         else a\<lparr>elems := elems a @ replicate (nat i - length (elems a)) PUndefined @ [v]\<rparr>)
      else a\<lparr>named := (i, v) # named a\<rparr>)"

text \<open>The copy \<^verbatim>\<open>[...keys]\<close> takes the elements only.\<close>

definition spread :: "keyArray \<Rightarrow> keyArray" where
  "spread a = \<lparr>elems = elems a, named = []\<rparr>"

datatype Action =
  NextPage
  | PreviousPage
  | Sort SortOptions
  | Filter "FilterOptions option"
  | OnSuccess "Bill list"
  | Error string

record State =
  sort_opt :: SortOptions
  filter_opt :: "FilterOptions option"
  pageKeys :: keyArray
  currentPageKey :: pagekey
  currentPage :: int
  billsPerPage :: int
  nextKey :: pagekey
  previousKey :: pagekey
  error :: "string option"

subsection \<open>The reducer\<close>

definition initialState :: State where
  "initialState =
     \<lparr>sort_opt = ById,
      filter_opt = None,
      pageKeys = \<lparr>elems = [PNull], named = []\<rparr>,
      currentPageKey = PNull,
      currentPage = 0,
      billsPerPage = 10,
      nextKey = PUndefined,
      previousKey = PUndefined,
      error = None\<rparr>"

text \<open>\<^verbatim>\<open>{ ...state, ...initialPage }\<close>: the five fields of \<^verbatim>\<open>initialPage\<close> overwrite
  the state's.\<close>

definition initialPage :: "State \<Rightarrow> State" where
  "initialPage state =
     state\<lparr>pageKeys := \<lparr>elems = [PNull], named = []\<rparr>,
           currentPage := 0,
           currentPageKey := PNull,
           nextKey := PUndefined,
           previousKey := PUndefined\<rparr>"

definition adjacentKeys :: "keyArray \<Rightarrow> int \<Rightarrow> pagekey \<times> pagekey" where
  "adjacentKeys keys cp = (aget keys (cp + 1), aget keys (cp - 1))"

text \<open>
  lodash's \<^verbatim>\<open>nth(array, n)\<close>: the element at index \<open>n\<close>, counted from the end when
  \<open>n\<close> is negative, and \<^verbatim>\<open>undefined\<close> (here \<open>None\<close>) when there is none.
\<close>

definition nth_lodash :: "'a list \<Rightarrow> int \<Rightarrow> 'a option" where
  "nth_lodash array n =
     (let len = int (length array);
          n' = n + (if n < 0 then len else 0)
      in if 0 \<le> n' \<and> n' < len then Some (array ! nat n') else None)"

definition optTime :: "nat option \<Rightarrow> keyval" where
  "optTime t = (case t of None \<Rightarrow> KUndefined | Some x \<Rightarrow> KTime x)"

fun getPageKey :: "Bill \<Rightarrow> SortOptions \<Rightarrow> keyval list" where
  "getPageKey bill CosponsorCount = [KNum (cosponsorCount bill), KStr (bill_id bill)]"
| "getPageKey bill HearingDate = [optTime (nextHearingAt bill), KStr (bill_id bill)]"
| "getPageKey bill ById = [KStr (bill_id bill)]"
| "getPageKey bill LatestTestimony = [optTime (latestTestimonyAt bill), KStr (bill_id bill)]"
| "getPageKey bill TestimonyCount = [KNum (testimonyCount bill), KStr (bill_id bill)]"

definition movePage :: "State \<Rightarrow> int \<Rightarrow> State" where
  "movePage state d =
     (let next = currentPage state + d;
          nextKey' = aget (pageKeys state) next
      in if nextKey' \<noteq> PUndefined then
           state\<lparr>currentPage := next,
                 currentPageKey := nextKey',
                 nextKey := fst (adjacentKeys (pageKeys state) next),
                 previousKey := snd (adjacentKeys (pageKeys state) next)\<rparr>
         else state)"

fun reducer :: "State \<Rightarrow> Action \<Rightarrow> State" where
  "reducer state NextPage = movePage state 1"
| "reducer state PreviousPage = movePage state (- 1)"
| "reducer state (Sort s) =
     (if s \<noteq> sort_opt state then initialPage (state\<lparr>sort_opt := s\<rparr>) else state)"
| "reducer state (OnSuccess page) =
     (let keys = spread (pageKeys state);
          bill = nth_lodash page (billsPerPage state - 1);
          keys' = aset keys (currentPage state + 1)
                    (case bill of
                       Some b \<Rightarrow> PKey (getPageKey b (sort_opt state))
                     | None \<Rightarrow> PUndefined)
      in state\<lparr>pageKeys := keys',
               nextKey := fst (adjacentKeys keys' (currentPage state)),
               previousKey := snd (adjacentKeys keys' (currentPage state))\<rparr>)"
| "reducer state (Error e) = state\<lparr>error := Some e\<rparr>"
| "reducer state (Filter f) = initialPage (state\<lparr>filter_opt := f\<rparr>)"

text \<open>The state after the hook \<^verbatim>\<open>useReducer(reducer, initialState)\<close> has been sent a
  sequence of actions.\<close>

definition dispatched :: "Action list \<Rightarrow> State" where
  "dispatched acts = foldl reducer initialState acts"

text \<open>
  The relation between the page index, the cursor list and the three cached cursors.
  The cursor list is an array with its elements only, so that a read before index 0 gives
  \<^verbatim>\<open>undefined\<close>, as a read past the end does.
\<close>

definition page_invariant :: "State \<Rightarrow> bool" where
  "page_invariant s =
     (0 \<le> currentPage s
      \<and> named (pageKeys s) = []
      \<and> aget (pageKeys s) 0 = PNull
      \<and> currentPageKey s = aget (pageKeys s) (currentPage s)
      \<and> nextKey s = aget (pageKeys s) (currentPage s + 1)
      \<and> previousKey s = aget (pageKeys s) (currentPage s - 1))"

text \<open>What the hook derives from the state for its caller.\<close>

definition hasNextPage :: "State \<Rightarrow> bool" where
  "hasNextPage state = (nextKey state \<noteq> PUndefined)"

definition hasPreviousPage :: "State \<Rightarrow> bool" where
  "hasPreviousPage state = (previousKey state \<noteq> PUndefined)"

section \<open>Properties of the notification fan-out\<close>

lemma createNotificationFields_bill:
  assumes "type e = Str ''bill''" and "billHistory e = Some h" and "h \<noteq> []"
  shows "createNotificationFields now e =
     Inr \<lparr>topicName = ''bill-'' @ toStr (billCourt e) @ ''-'' @ toStr (billId e),
          uid = Str '''',
          notification =
            \<lparr>bodyText = Str (Action (last h)), header = billId e, court = billCourt e,
             notif_id = billId e, subheader = Str (Branch (last h)),
             timestamp = updateTime e, notif_type = Str ''bill'', delivered = False\<rparr>,
          createdAt = now\<rparr>"
  using assms by (simp add: createNotificationFields_def Let_def last_conv_nth)

lemma createNotificationFields_org:
  assumes "type e = Str ''org''"
  shows "createNotificationFields now e =
     Inr \<lparr>topicName = ''org-'' @ toStr (orgId e),
          uid = Str '''',
          notification =
            \<lparr>bodyText = testimonyContent e, header = billId e, court = billCourt e,
             notif_id = billId e, subheader = testimonyUser e,
             timestamp = updateTime e, notif_type = Str ''org'', delivered = False\<rparr>,
          createdAt = now\<rparr>"
  using assms by (simp add: createNotificationFields_def Let_def)

lemma createNotificationFields_empty_history:
  assumes "type e = Str ''bill''" and "billHistory e = Some []"
  shows "createNotificationFields now e = Inl (InvalidHistoryLength 0)"
  using assms by (simp add: createNotificationFields_def Let_def)

lemma createNotificationFields_projections:
  assumes "createNotificationFields now e = Inr nf"
  shows "notif_type (notification nf) = type e"
    and "court (notification nf) = billCourt e"
    and "notif_id (notification nf) = billId e"
    and "header (notification nf) = billId e"
  using assms
  by (auto simp: createNotificationFields_def Let_def split: option.splits if_splits)

lemma forEachSubscription_all_staged:
  assumes "\<forall>d\<in>set ds. validCollectionPath (feedCollection d)
                      \<and> validDocument (newNotificationFields nf d)"
  shows "forEachSubscription nf ds =
           (map (\<lambda>d. (feedCollection d, newNotificationFields nf d)) ds, None)"
  using assms by (induction ds) (simp_all add: stageNotification_def)

lemma forEachSubscription_completed:
  assumes "snd (forEachSubscription nf ds) = None"
  shows "fst (forEachSubscription nf ds) =
           map (\<lambda>d. (feedCollection d, newNotificationFields nf d)) ds"
  using assms
  by (induction ds) (auto simp: stageNotification_def split: if_splits prod.splits)

lemma handleNotifications_derived:
  assumes "createNotificationFields now e = Inr nf"
  shows "handleNotifications docs now e =
     \<lparr>queries = topicName nf #
         (if notif_type (notification nf) \<noteq> Str ''bill'' then [billTopic nf] else []),
      batch = fst (forEachSubscription nf (combinedSnapshots docs nf)),
      thrown = snd (forEachSubscription nf (combinedSnapshots docs nf))\<rparr>"
  using assms by (simp add: handleNotifications_def split: prod.splits)

lemma handleNotifications_failed:
  assumes "createNotificationFields now e = Inl err"
  shows "handleNotifications docs now e = \<lparr>queries = [], batch = [], thrown = Some err\<rparr>"
  using assms by (simp add: handleNotifications_def)

lemma handleNotifications_completes:
  assumes "createNotificationFields now e = Inr nf"
    and "\<forall>d\<in>set (combinedSnapshots docs nf).
           validCollectionPath (feedCollection d) \<and> validDocument (newNotificationFields nf d)"
  shows "thrown (handleNotifications docs now e) = None"
  using handleNotifications_derived [OF assms(1), of docs]
    forEachSubscription_all_staged [OF assms(2)]
  by simp

lemma feed_collection_paths:
  "validCollectionPath ''users/u1/userNotificationFeed''"
  "\<not> validCollectionPath ''users//userNotificationFeed''"
  "\<not> validCollectionPath ''users/a/b/userNotificationFeed''"
  "validCollectionPath ''users/undefined/userNotificationFeed''"
  by (simp_all add: validCollectionPath_def)

lemma stageNotification_refusals:
  "stageNotification nf \<lparr>sub_topicName = t, sub_uid = Str [], sub_type = ty\<rparr>
     = Inl InvalidCollectionPath"
  "stageNotification nf \<lparr>sub_topicName = t, sub_uid = Undefined, sub_type = ty\<rparr>
     = Inl InvalidDocumentData"
  "stageNotification nf \<lparr>sub_topicName = t, sub_uid = Str ''u1'', sub_type = Undefined\<rparr>
     = Inl InvalidDocumentData"
  by (simp_all add: stageNotification_def feedCollection_def validCollectionPath_def
        newNotificationFields_def validDocument_def)

subsection \<open>Bill events\<close>

text \<open>
  C5. For a Bill event whose history has at least one entry, field derivation succeeds;
  the topic name is \<^verbatim>\<open>bill-{court}-{billId}\<close>, the body text is the \<^verbatim>\<open>Action\<close> of the
  last history entry and the subheader is that entry's \<^verbatim>\<open>Branch\<close>.
\<close>

theorem bill_fields_from_last_history_entry:
  assumes "type e = Str ''bill''" and "billHistory e = Some h" and "1 \<le> length h"
  shows "\<exists>nf. createNotificationFields now e = Inr nf
           \<and> topicName nf = ''bill-'' @ toStr (billCourt e) @ ''-'' @ toStr (billId e)
           \<and> bodyText (notification nf) = Str (Action (last h))
           \<and> subheader (notification nf) = Str (Branch (last h))"
proof -
  from assms(3) have "h \<noteq> []" by auto
  with assms(1,2) show ?thesis
    by (simp add: createNotificationFields_bill)
qed

theorem bill_fields_from_last_history_entry_witness:
  "\<exists>nf. createNotificationFields 7
      \<lparr>type = Str ''bill'', billCourt = Str ''House'', billId = Str ''100'',
       billHistory = Some [\<lparr>Date = ''d1'', Branch = ''House'', Action = ''Filed''\<rparr>,
                           \<lparr>Date = ''d2'', Branch = ''Senate'', Action = ''Read''\<rparr>],
       orgId = Undefined, testimonyContent = Undefined, testimonyUser = Undefined,
       updateTime = Some 5\<rparr> = Inr nf
     \<and> topicName nf = ''bill-House-100''
     \<and> bodyText (notification nf) = Str ''Read''
     \<and> subheader (notification nf) = Str ''Senate''"
  using bill_fields_from_last_history_entry
    [of "\<lparr>type = Str ''bill'', billCourt = Str ''House'', billId = Str ''100'',
       billHistory = Some [\<lparr>Date = ''d1'', Branch = ''House'', Action = ''Filed''\<rparr>,
                           \<lparr>Date = ''d2'', Branch = ''Senate'', Action = ''Read''\<rparr>],
       orgId = Undefined, testimonyContent = Undefined, testimonyUser = Undefined,
       updateTime = Some 5\<rparr>"
        "[\<lparr>Date = ''d1'', Branch = ''House'', Action = ''Filed''\<rparr>,
          \<lparr>Date = ''d2'', Branch = ''Senate'', Action = ''Read''\<rparr>]" 7]
  by simp

text \<open>
  C4. For a Bill event whose history is empty, field derivation fails with the validation
  error, \<^verbatim>\<open>handleNotifications\<close> ends with it before any query and any staged write, and
  the invocation ends with that error and the store as it was: nothing is committed.
\<close>

theorem empty_history_aborts_without_write:
  assumes "type e = Str ''bill''" and "billHistory e = Some []"
  shows "createNotificationFields now e = Inl (InvalidHistoryLength 0)
       \<and> handleNotifications (activeTopicSubscriptions db) now e
           = \<lparr>queries = [], batch = [], thrown = Some (InvalidHistoryLength 0)\<rparr>
       \<and> publishNotifications db now (Some e) = (Some (InvalidHistoryLength 0), db)"
proof -
  have c: "createNotificationFields now e = Inl (InvalidHistoryLength 0)"
    using assms by (rule createNotificationFields_empty_history)
  then have h: "handleNotifications (activeTopicSubscriptions db) now e
                  = \<lparr>queries = [], batch = [], thrown = Some (InvalidHistoryLength 0)\<rparr>"
    by (rule handleNotifications_failed)
  from c h show ?thesis by (simp add: publishNotifications_def)
qed

theorem empty_history_aborts_without_write_witness:
  "publishNotifications
     \<lparr>activeTopicSubscriptions =
        [\<lparr>sub_topicName = Str ''bill-House-100'', sub_uid = Str ''u2'', sub_type = Str ''bill''\<rparr>],
      userNotificationFeed = []\<rparr>
     7
     (Some \<lparr>type = Str ''bill'', billCourt = Str ''House'', billId = Str ''100'',
       billHistory = Some [], orgId = Undefined, testimonyContent = Undefined,
       testimonyUser = Undefined, updateTime = Some 5\<rparr>)
   = (Some (InvalidHistoryLength 0),
      \<lparr>activeTopicSubscriptions =
        [\<lparr>sub_topicName = Str ''bill-House-100'', sub_uid = Str ''u2'', sub_type = Str ''bill''\<rparr>],
      userNotificationFeed = []\<rparr>)"
  using empty_history_aborts_without_write
    [of "\<lparr>type = Str ''bill'', billCourt = Str ''House'', billId = Str ''100'',
       billHistory = Some [], orgId = Undefined, testimonyContent = Undefined,
       testimonyUser = Undefined, updateTime = Some 5\<rparr>" 7
       "\<lparr>activeTopicSubscriptions =
        [\<lparr>sub_topicName = Str ''bill-House-100'', sub_uid = Str ''u2'', sub_type = Str ''bill''\<rparr>],
      userNotificationFeed = []\<rparr>"]
  by simp

subsection \<open>The companion query\<close>



subsection \<open>Org events\<close>

text \<open>
  C3, as stated, fails. An Org event can carry the bill fields \<^verbatim>\<open>billId\<close> and
  \<^verbatim>\<open>billCourt\<close>: the function reads both on either variant. For such an event the
  derived \<^verbatim>\<open>header\<close>, \<^verbatim>\<open>court\<close> and \<^verbatim>\<open>id\<close> are defined, and the second query asks
  for the topic of that bill.
\<close>

theorem org_event_with_bill_fields_counterexample:
  "createNotificationFields 7
      \<lparr>type = Str ''org'', billCourt = Str ''House'', billId = Str ''100'', billHistory = None,
       orgId = Str ''42'', testimonyContent = Str ''Support'', testimonyUser = Str ''alice'',
       updateTime = Some 5\<rparr>
   = Inr \<lparr>topicName = ''org-42'', uid = Str '''',
          notification =
            \<lparr>bodyText = Str ''Support'', header = Str ''100'', court = Str ''House'',
             notif_id = Str ''100'', subheader = Str ''alice'', timestamp = Some 5,
             notif_type = Str ''org'', delivered = False\<rparr>,
          createdAt = 7\<rparr>
   \<and> queries (handleNotifications [] 7
      \<lparr>type = Str ''org'', billCourt = Str ''House'', billId = Str ''100'', billHistory = None,
       orgId = Str ''42'', testimonyContent = Str ''Support'', testimonyUser = Str ''alice'',
       updateTime = Some 5\<rparr>) = [''org-42'', ''bill-House-100'']"
  by (simp add: handleNotifications_def createNotificationFields_def Let_def
        combinedSnapshots_def whereTopicName_def billTopic_def)

text \<open>
  C3, amended. For every Org event, the derived \<^verbatim>\<open>header\<close> and \<^verbatim>\<open>id\<close> are what the
  event has in \<^verbatim>\<open>billId\<close> and the derived \<^verbatim>\<open>court\<close> is what it has in
  \<^verbatim>\<open>billCourt\<close>, and the second query asks for the topic
  \<^verbatim>\<open>bill-{billCourt}-{billId}\<close>. For an Org event that carries neither field, the three
  are \<^verbatim>\<open>undefined\<close> and that topic is \<^verbatim>\<open>bill-undefined-undefined\<close>.
\<close>

theorem org_event_fields_read_from_bill_fields:
  assumes "type e = Str ''org''"
  shows "\<exists>nf. createNotificationFields now e = Inr nf
           \<and> header (notification nf) = billId e
           \<and> court (notification nf) = billCourt e
           \<and> notif_id (notification nf) = billId e
           \<and> queries (handleNotifications docs now e)
               = [''org-'' @ toStr (orgId e),
                  ''bill-'' @ toStr (billCourt e) @ ''-'' @ toStr (billId e)]
           \<and> (billCourt e = Undefined \<and> billId e = Undefined \<longrightarrow>
                header (notification nf) = Undefined
              \<and> court (notification nf) = Undefined
              \<and> notif_id (notification nf) = Undefined
              \<and> queries (handleNotifications docs now e)
                  = [''org-'' @ toStr (orgId e), ''bill-undefined-undefined''])"
proof -
  from createNotificationFields_org [OF assms, of now]
  obtain nf where nf: "createNotificationFields now e = Inr nf"
    and tn: "topicName nf = ''org-'' @ toStr (orgId e)"
    by simp
  note pr = createNotificationFields_projections [OF nf]
  from handleNotifications_derived [OF nf, of docs] pr assms tn
  have q: "queries (handleNotifications docs now e)
             = [''org-'' @ toStr (orgId e),
                ''bill-'' @ toStr (billCourt e) @ ''-'' @ toStr (billId e)]"
    by (simp add: billTopic_def)
  from nf pr q show ?thesis by simp
qed

theorem org_event_fields_read_from_bill_fields_witness:
  "(\<exists>nf. createNotificationFields 7
      \<lparr>type = Str ''org'', billCourt = Str ''House'', billId = Str ''100'', billHistory = None,
       orgId = Str ''42'', testimonyContent = Str ''Support'', testimonyUser = Str ''alice'',
       updateTime = Some 5\<rparr> = Inr nf
      \<and> header (notification nf) = Str ''100''
      \<and> court (notification nf) = Str ''House''
      \<and> notif_id (notification nf) = Str ''100'')
   \<and> queries (handleNotifications [] 7
      \<lparr>type = Str ''org'', billCourt = Str ''House'', billId = Str ''100'', billHistory = None,
       orgId = Str ''42'', testimonyContent = Str ''Support'', testimonyUser = Str ''alice'',
       updateTime = Some 5\<rparr>) = [''org-42'', ''bill-House-100'']
   \<and> (\<exists>nf. createNotificationFields 7
      \<lparr>type = Str ''org'', billCourt = Undefined, billId = Undefined, billHistory = None,
       orgId = Str ''42'', testimonyContent = Str ''Support'', testimonyUser = Str ''alice'',
       updateTime = None\<rparr> = Inr nf
      \<and> header (notification nf) = Undefined
      \<and> court (notification nf) = Undefined
      \<and> notif_id (notification nf) = Undefined)
   \<and> queries (handleNotifications [] 7
      \<lparr>type = Str ''org'', billCourt = Undefined, billId = Undefined, billHistory = None,
       orgId = Str ''42'', testimonyContent = Str ''Support'', testimonyUser = Str ''alice'',
       updateTime = None\<rparr>) = [''org-42'', ''bill-undefined-undefined'']"
  using org_event_fields_read_from_bill_fields
    [of "\<lparr>type = Str ''org'', billCourt = Str ''House'', billId = Str ''100'', billHistory = None,
       orgId = Str ''42'', testimonyContent = Str ''Support'', testimonyUser = Str ''alice'',
       updateTime = Some 5\<rparr>" 7 "[]"]
    org_event_fields_read_from_bill_fields
    [of "\<lparr>type = Str ''org'', billCourt = Undefined, billId = Undefined, billHistory = None,
       orgId = Str ''42'', testimonyContent = Str ''Support'', testimonyUser = Str ''alice'',
       updateTime = None\<rparr>" 7 "[]"]
  by auto

subsection \<open>The type of each notification\<close>

text \<open>
  C1, as stated, fails. The type of a notification is the \<^verbatim>\<open>type\<close> field destructured
  from the merged subscriber record, and only the records of the second query have that
  field overwritten. For an Org event, a subscriber of the direct-topic query whose record
  has type \<^verbatim>\<open>bill\<close> gets a notification of type \<^verbatim>\<open>bill\<close>: it did not come from the
  bill-companion query, and the event's type \<^verbatim>\<open>org\<close> is not kept.
\<close>

theorem direct_subscriber_type_counterexample:
  "handleNotifications
      [\<lparr>sub_topicName = Str ''org-42'', sub_uid = Str ''u1'', sub_type = Str ''bill''\<rparr>] 7
      \<lparr>type = Str ''org'', billCourt = Str ''House'', billId = Str ''100'', billHistory = None,
       orgId = Str ''42'', testimonyContent = Str ''Support'', testimonyUser = Str ''alice'',
       updateTime = Some 5\<rparr>
   = \<lparr>queries = [''org-42'', ''bill-House-100''],
      batch = [(''users/u1/userNotificationFeed'',
            \<lparr>topicName = ''org-42'', uid = Str ''u1'',
             notification =
               \<lparr>bodyText = Str ''Support'', header = Str ''100'', court = Str ''House'',
                notif_id = Str ''100'', subheader = Str ''alice'', timestamp = Some 5,
                notif_type = Str ''bill'', delivered = False\<rparr>,
             createdAt = 7\<rparr>)],
      thrown = None\<rparr>"
  by (simp add: handleNotifications_def createNotificationFields_def Let_def
        combinedSnapshots_def whereTopicName_def billTopic_def stageNotification_def
        feedCollection_def newNotificationFields_def validDocument_def
        validCollectionPath_def)

text \<open>
  C1, amended. Whenever field derivation succeeds and the run stages its documents without
  an exception, the staged notifications are, in order, one for each subscriber of the
  direct-topic query, with that subscriber's id and the \<^verbatim>\<open>type\<close> field of that
  subscriber's own record, followed, when the event is not a bill event, by one for each
  subscriber of the bill-companion query, with that subscriber's id and the type
  \<^verbatim>\<open>bill\<close>.
\<close>

theorem notification_type_from_subscriber_record:
  assumes "createNotificationFields now e = Inr nf"
    and "thrown (handleNotifications docs now e) = None"
  shows "map (\<lambda>w. (uid (snd w), notif_type (notification (snd w))))
           (batch (handleNotifications docs now e))
       = map (\<lambda>d. (sub_uid d, sub_type d)) (whereTopicName docs (topicName nf))
         @ (if type e = Str ''bill'' then []
            else map (\<lambda>d. (sub_uid d, Str ''bill''))
                   (whereTopicName docs
                      (''bill-'' @ toStr (billCourt e) @ ''-'' @ toStr (billId e))))"
proof -
  note h = handleNotifications_derived [OF assms(1), of docs]
  from assms(2) h have "snd (forEachSubscription nf (combinedSnapshots docs nf)) = None"
    by simp
  then have "batch (handleNotifications docs now e)
               = map (\<lambda>d. (feedCollection d, newNotificationFields nf d))
                   (combinedSnapshots docs nf)"
    using h by (simp add: forEachSubscription_completed)
  then show ?thesis
    using createNotificationFields_projections [OF assms(1)]
    by (simp add: combinedSnapshots_def billTopic_def newNotificationFields_def comp_def)
qed

theorem notification_type_from_subscriber_record_witness:
  "thrown (handleNotifications
      [\<lparr>sub_topicName = Str ''org-42'', sub_uid = Str ''u1'', sub_type = Str ''bill''\<rparr>,
       \<lparr>sub_topicName = Str ''bill-House-100'', sub_uid = Str ''u2'', sub_type = Str ''org''\<rparr>] 7
      \<lparr>type = Str ''org'', billCourt = Str ''House'', billId = Str ''100'', billHistory = None,
       orgId = Str ''42'', testimonyContent = Str ''Support'', testimonyUser = Str ''alice'',
       updateTime = Some 5\<rparr>) = None
   \<and> map (\<lambda>w. (uid (snd w), notif_type (notification (snd w))))
       (batch (handleNotifications
      [\<lparr>sub_topicName = Str ''org-42'', sub_uid = Str ''u1'', sub_type = Str ''bill''\<rparr>,
       \<lparr>sub_topicName = Str ''bill-House-100'', sub_uid = Str ''u2'', sub_type = Str ''org''\<rparr>] 7
      \<lparr>type = Str ''org'', billCourt = Str ''House'', billId = Str ''100'', billHistory = None,
       orgId = Str ''42'', testimonyContent = Str ''Support'', testimonyUser = Str ''alice'',
       updateTime = Some 5\<rparr>))
     = [(Str ''u1'', Str ''bill''), (Str ''u2'', Str ''bill'')]"
proof -
  have c: "createNotificationFields 7
      \<lparr>type = Str ''org'', billCourt = Str ''House'', billId = Str ''100'', billHistory = None,
       orgId = Str ''42'', testimonyContent = Str ''Support'', testimonyUser = Str ''alice'',
       updateTime = Some 5\<rparr>
    = Inr \<lparr>topicName = ''org-42'', uid = Str '''',
           notification =
             \<lparr>bodyText = Str ''Support'', header = Str ''100'', court = Str ''House'',
              notif_id = Str ''100'', subheader = Str ''alice'', timestamp = Some 5,
              notif_type = Str ''org'', delivered = False\<rparr>,
           createdAt = 7\<rparr>"
    by (simp add: createNotificationFields_def Let_def)
  have t: "thrown (handleNotifications
      [\<lparr>sub_topicName = Str ''org-42'', sub_uid = Str ''u1'', sub_type = Str ''bill''\<rparr>,
       \<lparr>sub_topicName = Str ''bill-House-100'', sub_uid = Str ''u2'', sub_type = Str ''org''\<rparr>] 7
      \<lparr>type = Str ''org'', billCourt = Str ''House'', billId = Str ''100'', billHistory = None,
       orgId = Str ''42'', testimonyContent = Str ''Support'', testimonyUser = Str ''alice'',
       updateTime = Some 5\<rparr>) = None"
    by (simp add: handleNotifications_def c
        combinedSnapshots_def whereTopicName_def billTopic_def stageNotification_def
        feedCollection_def newNotificationFields_def validDocument_def
        validCollectionPath_def)
  from notification_type_from_subscriber_record [OF c t] t
  show ?thesis by (simp add: whereTopicName_def)
qed

subsection \<open>The end-to-end scenario\<close>

text \<open>
  C2, as stated, fails. The event of the scenario has no \<^verbatim>\<open>billCourt\<close>, no
  \<^verbatim>\<open>billId\<close> and no \<^verbatim>\<open>updateTime\<close>. The second query asks for
  \<^verbatim>\<open>bill-undefined-undefined\<close> and does not find the subscriber of
  \<^verbatim>\<open>bill-House-100\<close>, and the document for the subscriber of \<^verbatim>\<open>org-42\<close> has
  \<^verbatim>\<open>undefined\<close> fields, which the store refuses: no document is staged and none is
  committed.
\<close>

theorem org_scenario_counterexample:
  "handleNotifications
      [\<lparr>sub_topicName = Str ''org-42'', sub_uid = Str ''u1'', sub_type = Str ''org''\<rparr>,
       \<lparr>sub_topicName = Str ''bill-House-100'', sub_uid = Str ''u2'', sub_type = Str ''bill''\<rparr>] 7
      \<lparr>type = Str ''org'', billCourt = Undefined, billId = Undefined, billHistory = None,
       orgId = Str ''42'', testimonyContent = Str ''Support'', testimonyUser = Str ''alice'',
       updateTime = None\<rparr>
   = \<lparr>queries = [''org-42'', ''bill-undefined-undefined''], batch = [],
      thrown = Some InvalidDocumentData\<rparr>
   \<and> publishNotifications
     \<lparr>activeTopicSubscriptions =
        [\<lparr>sub_topicName = Str ''org-42'', sub_uid = Str ''u1'', sub_type = Str ''org''\<rparr>,
         \<lparr>sub_topicName = Str ''bill-House-100'', sub_uid = Str ''u2'', sub_type = Str ''bill''\<rparr>],
      userNotificationFeed = []\<rparr> 7 (Some
      \<lparr>type = Str ''org'', billCourt = Undefined, billId = Undefined, billHistory = None,
       orgId = Str ''42'', testimonyContent = Str ''Support'', testimonyUser = Str ''alice'',
       updateTime = None\<rparr>)
   = (Some InvalidDocumentData,
     \<lparr>activeTopicSubscriptions =
        [\<lparr>sub_topicName = Str ''org-42'', sub_uid = Str ''u1'', sub_type = Str ''org''\<rparr>,
         \<lparr>sub_topicName = Str ''bill-House-100'', sub_uid = Str ''u2'', sub_type = Str ''bill''\<rparr>],
      userNotificationFeed = []\<rparr>)"
  by (simp add: publishNotifications_def handleNotifications_def
        createNotificationFields_def Let_def
        combinedSnapshots_def whereTopicName_def billTopic_def stageNotification_def
        feedCollection_def newNotificationFields_def validDocument_def
        validCollectionPath_def)

text \<open>
  C2, amended. Let the event also carry the companion bill and an update time:
  \<^verbatim>\<open>billCourt\<close> = House, \<^verbatim>\<open>billId\<close> = 100, \<^verbatim>\<open>updateTime\<close> = t. Let the store have
  exactly one subscriber of \<^verbatim>\<open>org-42\<close>, whose record has type \<^verbatim>\<open>org\<close>, and exactly one
  subscriber of \<^verbatim>\<open>bill-House-100\<close>, each record with a user id that gives a well-formed
  feed collection. Then the fan-out stages exactly two documents, one of type \<^verbatim>\<open>org\<close>
  in the feed of the first subscriber and one of type \<^verbatim>\<open>bill\<close> in the feed of the
  second, and the commit adds these two to the store.
\<close>

theorem org_scenario_with_companion_bill:
  assumes "whereTopicName (activeTopicSubscriptions db) ''org-42'' = [s1]"
    and "whereTopicName (activeTopicSubscriptions db) ''bill-House-100'' = [s2]"
    and "sub_type s1 = Str ''org''"
    and "sub_uid s1 \<noteq> Undefined" and "sub_uid s2 \<noteq> Undefined"
    and "validCollectionPath (feedCollection s1)"
    and "validCollectionPath (feedCollection s2)"
  shows "publishNotifications db now (Some
      \<lparr>type = Str ''org'', billCourt = Str ''House'', billId = Str ''100'', billHistory = None,
       orgId = Str ''42'', testimonyContent = Str ''Support'', testimonyUser = Str ''alice'',
       updateTime = Some t\<rparr>)
   = (None, db\<lparr>userNotificationFeed := userNotificationFeed db @
       [(''users/'' @ toStr (sub_uid s1) @ ''/userNotificationFeed'',
         \<lparr>topicName = ''org-42'', uid = sub_uid s1,
          notification =
            \<lparr>bodyText = Str ''Support'', header = Str ''100'', court = Str ''House'',
             notif_id = Str ''100'', subheader = Str ''alice'', timestamp = Some t,
             notif_type = Str ''org'', delivered = False\<rparr>,
          createdAt = now\<rparr>),
        (''users/'' @ toStr (sub_uid s2) @ ''/userNotificationFeed'',
         \<lparr>topicName = ''org-42'', uid = sub_uid s2,
          notification =
            \<lparr>bodyText = Str ''Support'', header = Str ''100'', court = Str ''House'',
             notif_id = Str ''100'', subheader = Str ''alice'', timestamp = Some t,
             notif_type = Str ''bill'', delivered = False\<rparr>,
          createdAt = now\<rparr>)]\<rparr>)"
proof -
  let ?nf = "\<lparr>topicName = ''org-42'', uid = Str '''',
           notification =
             \<lparr>bodyText = Str ''Support'', header = Str ''100'', court = Str ''House'',
              notif_id = Str ''100'', subheader = Str ''alice'', timestamp = Some t,
              notif_type = Str ''org'', delivered = False\<rparr>,
           createdAt = now\<rparr>"
  have c: "createNotificationFields now
      \<lparr>type = Str ''org'', billCourt = Str ''House'', billId = Str ''100'', billHistory = None,
       orgId = Str ''42'', testimonyContent = Str ''Support'', testimonyUser = Str ''alice'',
       updateTime = Some t\<rparr>
    = Inr ?nf"
    by (simp add: createNotificationFields_def Let_def)
  have m: "combinedSnapshots (activeTopicSubscriptions db) ?nf
             = [s1, s2\<lparr>sub_type := Str ''bill''\<rparr>]"
    using assms(1,2) by (simp add: combinedSnapshots_def billTopic_def)
  have "\<forall>d\<in>set [s1, s2\<lparr>sub_type := Str ''bill''\<rparr>].
          validCollectionPath (feedCollection d) \<and> validDocument (newNotificationFields ?nf d)"
    using assms(3-7)
    by (simp add: feedCollection_def newNotificationFields_def validDocument_def)
  then have f: "forEachSubscription ?nf [s1, s2\<lparr>sub_type := Str ''bill''\<rparr>]
          = (map (\<lambda>d. (feedCollection d, newNotificationFields ?nf d))
               [s1, s2\<lparr>sub_type := Str ''bill''\<rparr>], None)"
    by (rule forEachSubscription_all_staged)
  from handleNotifications_derived [OF c, of "activeTopicSubscriptions db"] m f assms(3)
  show ?thesis
    by (simp add: publishNotifications_def Let_def feedCollection_def
          newNotificationFields_def)
qed

theorem org_scenario_with_companion_bill_witness:
  "publishNotifications
     \<lparr>activeTopicSubscriptions =
        [\<lparr>sub_topicName = Str ''org-42'', sub_uid = Str ''u1'', sub_type = Str ''org''\<rparr>,
         \<lparr>sub_topicName = Str ''bill-House-100'', sub_uid = Str ''u2'', sub_type = Str ''bill''\<rparr>],
      userNotificationFeed = []\<rparr> 7 (Some
      \<lparr>type = Str ''org'', billCourt = Str ''House'', billId = Str ''100'', billHistory = None,
       orgId = Str ''42'', testimonyContent = Str ''Support'', testimonyUser = Str ''alice'',
       updateTime = Some 5\<rparr>)
   = (None,
     \<lparr>activeTopicSubscriptions =
        [\<lparr>sub_topicName = Str ''org-42'', sub_uid = Str ''u1'', sub_type = Str ''org''\<rparr>,
         \<lparr>sub_topicName = Str ''bill-House-100'', sub_uid = Str ''u2'', sub_type = Str ''bill''\<rparr>],
      userNotificationFeed =
       [(''users/u1/userNotificationFeed'',
         \<lparr>topicName = ''org-42'', uid = Str ''u1'',
          notification =
            \<lparr>bodyText = Str ''Support'', header = Str ''100'', court = Str ''House'',
             notif_id = Str ''100'', subheader = Str ''alice'', timestamp = Some 5,
             notif_type = Str ''org'', delivered = False\<rparr>,
          createdAt = 7\<rparr>),
        (''users/u2/userNotificationFeed'',
         \<lparr>topicName = ''org-42'', uid = Str ''u2'',
          notification =
            \<lparr>bodyText = Str ''Support'', header = Str ''100'', court = Str ''House'',
             notif_id = Str ''100'', subheader = Str ''alice'', timestamp = Some 5,
             notif_type = Str ''bill'', delivered = False\<rparr>,
          createdAt = 7\<rparr>)]\<rparr>)"
  using org_scenario_with_companion_bill
    [of "\<lparr>activeTopicSubscriptions =
        [\<lparr>sub_topicName = Str ''org-42'', sub_uid = Str ''u1'', sub_type = Str ''org''\<rparr>,
         \<lparr>sub_topicName = Str ''bill-House-100'', sub_uid = Str ''u2'', sub_type = Str ''bill''\<rparr>],
      userNotificationFeed = []\<rparr>"
      "\<lparr>sub_topicName = Str ''org-42'', sub_uid = Str ''u1'', sub_type = Str ''org''\<rparr>"
      "\<lparr>sub_topicName = Str ''bill-House-100'', sub_uid = Str ''u2'', sub_type = Str ''bill''\<rparr>" 7 5]
  by (simp add: whereTopicName_def feedCollection_def validCollectionPath_def)

section \<open>Properties of the bill listing state\<close>

subsection \<open>The cursor list\<close>

lemma aget_aset: "aget (aset a i v) j = (if j = i then v else aget a j)"
proof (cases "0 \<le> i")
  case True
  then show ?thesis
    by (auto simp: aget_def aset_def nth_append nth_list_update nat_eq_iff)
next
  case False
  then show ?thesis
    by (auto simp: aget_def aset_def)
qed

lemma aget_spread: "aget (spread a) j = (if 0 \<le> j then aget a j else PUndefined)"
  by (simp add: aget_def spread_def)

lemma named_aset_spread: "0 \<le> i \<Longrightarrow> named (aset (spread a) i v) = []"
  by (simp add: aset_def spread_def)

lemma aget_before_plain: "named a = [] \<Longrightarrow> j < 0 \<Longrightarrow> aget a j = PUndefined"
  by (simp add: aget_def)

lemma nth_lodash_page:
  assumes "0 < n"
  shows "nth_lodash page (n - 1) =
           (if n \<le> int (length page) then Some (page ! nat (n - 1)) else None)"
  using assms by (simp add: nth_lodash_def Let_def)

subsection \<open>Moving between pages\<close>

text \<open>
  C7. Dispatching \<^verbatim>\<open>nextPage\<close> (or \<^verbatim>\<open>previousPage\<close>) when the cursor list has
  \<^verbatim>\<open>undefined\<close> at the page after (before) the current one returns the state unchanged.
  Otherwise it moves the page index by +1 (-1), makes the stored cursor the current page
  key, and reads the next and previous cursors off the cursor list at the new index.
\<close>

theorem nextPage_previousPage_guarded:
  "(aget (pageKeys s) (currentPage s + 1) = PUndefined \<longrightarrow> reducer s NextPage = s)
   \<and> (aget (pageKeys s) (currentPage s + 1) \<noteq> PUndefined \<longrightarrow>
        reducer s NextPage =
          s\<lparr>currentPage := currentPage s + 1,
            currentPageKey := aget (pageKeys s) (currentPage s + 1),
            nextKey := aget (pageKeys s) (currentPage s + 2),
            previousKey := aget (pageKeys s) (currentPage s)\<rparr>)
   \<and> (aget (pageKeys s) (currentPage s - 1) = PUndefined \<longrightarrow> reducer s PreviousPage = s)
   \<and> (aget (pageKeys s) (currentPage s - 1) \<noteq> PUndefined \<longrightarrow>
        reducer s PreviousPage =
          s\<lparr>currentPage := currentPage s - 1,
            currentPageKey := aget (pageKeys s) (currentPage s - 1),
            nextKey := aget (pageKeys s) (currentPage s),
            previousKey := aget (pageKeys s) (currentPage s - 2)\<rparr>)"
  by (simp add: movePage_def adjacentKeys_def Let_def add.commute)

theorem nextPage_previousPage_guarded_witness:
  "reducer initialState NextPage = initialState
   \<and> reducer initialState PreviousPage = initialState
   \<and> reducer
      \<lparr>sort_opt = ById, filter_opt = None,
       pageKeys = \<lparr>elems = [PNull, PKey [KStr ''H10''], PKey [KStr ''H20'']], named = []\<rparr>,
       currentPageKey = PKey [KStr ''H10''], currentPage = 1, billsPerPage = 10,
       nextKey = PKey [KStr ''H20''], previousKey = PNull, error = None\<rparr>
      NextPage
     = \<lparr>sort_opt = ById, filter_opt = None,
       pageKeys = \<lparr>elems = [PNull, PKey [KStr ''H10''], PKey [KStr ''H20'']], named = []\<rparr>,
       currentPageKey = PKey [KStr ''H20''], currentPage = 2, billsPerPage = 10,
       nextKey = PUndefined, previousKey = PKey [KStr ''H10''], error = None\<rparr>
   \<and> reducer
      \<lparr>sort_opt = ById, filter_opt = None,
       pageKeys = \<lparr>elems = [PNull, PKey [KStr ''H10''], PKey [KStr ''H20'']], named = []\<rparr>,
       currentPageKey = PKey [KStr ''H10''], currentPage = 1, billsPerPage = 10,
       nextKey = PKey [KStr ''H20''], previousKey = PNull, error = None\<rparr>
      PreviousPage
     = \<lparr>sort_opt = ById, filter_opt = None,
       pageKeys = \<lparr>elems = [PNull, PKey [KStr ''H10''], PKey [KStr ''H20'']], named = []\<rparr>,
       currentPageKey = PNull, currentPage = 0, billsPerPage = 10,
       nextKey = PKey [KStr ''H10''], previousKey = PUndefined, error = None\<rparr>"
  using nextPage_previousPage_guarded [of initialState]
    nextPage_previousPage_guarded
    [of "\<lparr>sort_opt = ById, filter_opt = None,
       pageKeys = \<lparr>elems = [PNull, PKey [KStr ''H10''], PKey [KStr ''H20'']], named = []\<rparr>,
       currentPageKey = PKey [KStr ''H10''], currentPage = 1, billsPerPage = 10,
       nextKey = PKey [KStr ''H20''], previousKey = PNull, error = None\<rparr>"]
  by (simp add: initialState_def aget_def)

subsection \<open>Changing the sort mode\<close>

text \<open>
  C9. Dispatching \<^verbatim>\<open>sort\<close> with a sort mode other than the current one gives the first
  page (cursor list \<^verbatim>\<open>[null]\<close>, page index 0, current page key \<^verbatim>\<open>null\<close>, next and
  previous cursors \<^verbatim>\<open>undefined\<close>) with the new sort mode, and leaves the filter, the page
  size and the error as they were. Dispatching it with the current sort mode returns the
  state unchanged.
\<close>

theorem sort_resets_to_first_page:
  "(m \<noteq> sort_opt s \<longrightarrow>
      reducer s (Sort m) =
        s\<lparr>sort_opt := m,
          pageKeys := \<lparr>elems = [PNull], named = []\<rparr>,
          currentPage := 0,
          currentPageKey := PNull,
          nextKey := PUndefined,
          previousKey := PUndefined\<rparr>)
   \<and> (m = sort_opt s \<longrightarrow> reducer s (Sort m) = s)"
  by (simp add: initialPage_def)

theorem sort_resets_to_first_page_witness:
  "reducer
      \<lparr>sort_opt = ById, filter_opt = None,
       pageKeys = \<lparr>elems = [PNull, PKey [KStr ''H10''], PKey [KStr ''H20'']], named = []\<rparr>,
       currentPageKey = PKey [KStr ''H10''], currentPage = 1, billsPerPage = 10,
       nextKey = PKey [KStr ''H20''], previousKey = PNull, error = None\<rparr>
      (Sort CosponsorCount)
   = \<lparr>sort_opt = CosponsorCount, filter_opt = None,
      pageKeys = \<lparr>elems = [PNull], named = []\<rparr>,
      currentPageKey = PNull, currentPage = 0, billsPerPage = 10,
      nextKey = PUndefined, previousKey = PUndefined, error = None\<rparr>
   \<and> reducer
      \<lparr>sort_opt = ById, filter_opt = None,
       pageKeys = \<lparr>elems = [PNull, PKey [KStr ''H10''], PKey [KStr ''H20'']], named = []\<rparr>,
       currentPageKey = PKey [KStr ''H10''], currentPage = 1, billsPerPage = 10,
       nextKey = PKey [KStr ''H20''], previousKey = PNull, error = None\<rparr>
      (Sort ById)
   = \<lparr>sort_opt = ById, filter_opt = None,
       pageKeys = \<lparr>elems = [PNull, PKey [KStr ''H10''], PKey [KStr ''H20'']], named = []\<rparr>,
       currentPageKey = PKey [KStr ''H10''], currentPage = 1, billsPerPage = 10,
       nextKey = PKey [KStr ''H20''], previousKey = PNull, error = None\<rparr>"
  using sort_resets_to_first_page
    [of CosponsorCount "\<lparr>sort_opt = ById, filter_opt = None,
       pageKeys = \<lparr>elems = [PNull, PKey [KStr ''H10''], PKey [KStr ''H20'']], named = []\<rparr>,
       currentPageKey = PKey [KStr ''H10''], currentPage = 1, billsPerPage = 10,
       nextKey = PKey [KStr ''H20''], previousKey = PNull, error = None\<rparr>"]
    sort_resets_to_first_page
    [of ById "\<lparr>sort_opt = ById, filter_opt = None,
       pageKeys = \<lparr>elems = [PNull, PKey [KStr ''H10''], PKey [KStr ''H20'']], named = []\<rparr>,
       currentPageKey = PKey [KStr ''H10''], currentPage = 1, billsPerPage = 10,
       nextKey = PKey [KStr ''H20''], previousKey = PNull, error = None\<rparr>"]
  by simp

subsection \<open>A fetched page\<close>

lemma getPageKey_by_sort:
  "getPageKey b m =
     (case m of
        ById \<Rightarrow> [KStr (bill_id b)]
      | CosponsorCount \<Rightarrow> [KNum (cosponsorCount b), KStr (bill_id b)]
      | TestimonyCount \<Rightarrow> [KNum (testimonyCount b), KStr (bill_id b)]
      | LatestTestimony \<Rightarrow>
          [case latestTestimonyAt b of None \<Rightarrow> KUndefined | Some x \<Rightarrow> KTime x,
           KStr (bill_id b)]
      | HearingDate \<Rightarrow>
          [case nextHearingAt b of None \<Rightarrow> KUndefined | Some x \<Rightarrow> KTime x,
           KStr (bill_id b)])"
  by (cases m) (simp_all add: optTime_def)

text \<open>
  C8. With a positive page size \<^verbatim>\<open>billsPerPage\<close>, a successful fetch changes the cursor
  list, the next cursor and the previous cursor only. When the page has at least
  \<^verbatim>\<open>billsPerPage\<close> items, index \<^verbatim>\<open>currentPage + 1\<close> of the cursor list receives the key
  of the \<^verbatim>\<open>billsPerPage\<close>-th item, and a next page is available. The key is taken for the
  state's sort mode: the id alone when sorting by id; the cosponsor count, the testimony
  count, the time of the latest testimony or the time of the next hearing, followed by the
  id, when sorting by that. When the page has fewer items, that index receives
  \<^verbatim>\<open>undefined\<close>, no next page is available, and \<^verbatim>\<open>nextPage\<close> leaves the state as it is.
  In both cases the next and previous cursors are those of the new cursor list around the
  current page index.
\<close>

theorem onSuccess_stores_next_cursor:
  assumes "0 < billsPerPage s" and "s' = reducer s (OnSuccess page)"
    and "b = page ! nat (billsPerPage s - 1)"
    and "key =
           (case sort_opt s of
              ById \<Rightarrow> [KStr (bill_id b)]
            | CosponsorCount \<Rightarrow> [KNum (cosponsorCount b), KStr (bill_id b)]
            | TestimonyCount \<Rightarrow> [KNum (testimonyCount b), KStr (bill_id b)]
            | LatestTestimony \<Rightarrow>
                [case latestTestimonyAt b of None \<Rightarrow> KUndefined | Some x \<Rightarrow> KTime x,
                 KStr (bill_id b)]
            | HearingDate \<Rightarrow>
                [case nextHearingAt b of None \<Rightarrow> KUndefined | Some x \<Rightarrow> KTime x,
                 KStr (bill_id b)])"
  shows "(billsPerPage s \<le> int (length page) \<longrightarrow>
            pageKeys s' = aset (spread (pageKeys s)) (currentPage s + 1) (PKey key)
          \<and> aget (pageKeys s') (currentPage s + 1) = PKey key
          \<and> hasNextPage s')
       \<and> (int (length page) < billsPerPage s \<longrightarrow>
            pageKeys s' = aset (spread (pageKeys s)) (currentPage s + 1) PUndefined
          \<and> aget (pageKeys s') (currentPage s + 1) = PUndefined
          \<and> \<not> hasNextPage s'
          \<and> reducer s' NextPage = s')
       \<and> nextKey s' = aget (pageKeys s') (currentPage s + 1)
       \<and> previousKey s' = aget (pageKeys s') (currentPage s - 1)
       \<and> s' = s\<lparr>pageKeys := pageKeys s', nextKey := nextKey s', previousKey := previousKey s'\<rparr>"
proof -
  let ?v = "case nth_lodash page (billsPerPage s - 1) of
              Some b \<Rightarrow> PKey (getPageKey b (sort_opt s)) | None \<Rightarrow> PUndefined"
  let ?keys = "aset (spread (pageKeys s)) (currentPage s + 1) ?v"
  have s': "s' = s\<lparr>pageKeys := ?keys,
                   nextKey := aget ?keys (currentPage s + 1),
                   previousKey := aget ?keys (currentPage s - 1)\<rparr>"
    using assms(2) by (simp add: Let_def adjacentKeys_def)
  have key: "getPageKey b (sort_opt s) = key"
    using assms(4) by (simp only: getPageKey_by_sort)
  have v: "?v = (if billsPerPage s \<le> int (length page) then PKey key else PUndefined)"
    using key assms(3) by (simp add: nth_lodash_page [OF assms(1)])
  have stored: "aget ?keys (currentPage s + 1) = ?v"
    by (simp add: aget_aset)
  have cp: "currentPage s' = currentPage s" and pk: "pageKeys s' = ?keys"
    and nk: "nextKey s' = ?v"
    and pv: "previousKey s' = aget ?keys (currentPage s - 1)"
    using s' stored by simp_all
  have full: "billsPerPage s \<le> int (length page) \<longrightarrow>
            pageKeys s' = aset (spread (pageKeys s)) (currentPage s + 1) (PKey key)
          \<and> aget (pageKeys s') (currentPage s + 1) = PKey key
          \<and> hasNextPage s'"
    using pk nk v by (simp add: hasNextPage_def aget_aset)
  have short: "int (length page) < billsPerPage s \<longrightarrow>
            pageKeys s' = aset (spread (pageKeys s)) (currentPage s + 1) PUndefined
          \<and> aget (pageKeys s') (currentPage s + 1) = PUndefined
          \<and> \<not> hasNextPage s'
          \<and> reducer s' NextPage = s'"
    using pk nk cp v by (simp add: hasNextPage_def movePage_def Let_def aget_aset)
  have adj: "nextKey s' = aget (pageKeys s') (currentPage s + 1)"
    "previousKey s' = aget (pageKeys s') (currentPage s - 1)"
    using pk nk pv stored by simp_all
  have rest: "s' = s\<lparr>pageKeys := pageKeys s', nextKey := nextKey s',
                     previousKey := previousKey s'\<rparr>"
    by (subst (1) s') (simp add: s')
  from full short adj rest show ?thesis by blast
qed

theorem onSuccess_stores_next_cursor_witness:
  "reducer (initialState\<lparr>billsPerPage := 2, sort_opt := CosponsorCount\<rparr>)
       (OnSuccess
          [\<lparr>bill_id = ''H1'', cosponsorCount = 3, testimonyCount = 0,
            nextHearingAt = None, latestTestimonyAt = None\<rparr>,
           \<lparr>bill_id = ''H2'', cosponsorCount = 1, testimonyCount = 4,
            nextHearingAt = None, latestTestimonyAt = Some 9\<rparr>])
     = initialState
         \<lparr>billsPerPage := 2, sort_opt := CosponsorCount,
          pageKeys := \<lparr>elems = [PNull, PKey [KNum 1, KStr ''H2'']], named = []\<rparr>,
          nextKey := PKey [KNum 1, KStr ''H2''],
          previousKey := PUndefined\<rparr>
   \<and> reducer (initialState\<lparr>billsPerPage := 2, sort_opt := LatestTestimony\<rparr>)
       (OnSuccess
          [\<lparr>bill_id = ''H1'', cosponsorCount = 3, testimonyCount = 0,
            nextHearingAt = None, latestTestimonyAt = None\<rparr>,
           \<lparr>bill_id = ''H2'', cosponsorCount = 1, testimonyCount = 4,
            nextHearingAt = None, latestTestimonyAt = Some 9\<rparr>])
     = initialState
         \<lparr>billsPerPage := 2, sort_opt := LatestTestimony,
          pageKeys := \<lparr>elems = [PNull, PKey [KTime 9, KStr ''H2'']], named = []\<rparr>,
          nextKey := PKey [KTime 9, KStr ''H2''],
          previousKey := PUndefined\<rparr>
   \<and> reducer (initialState\<lparr>billsPerPage := 2, sort_opt := HearingDate\<rparr>)
       (OnSuccess
          [\<lparr>bill_id = ''H1'', cosponsorCount = 3, testimonyCount = 0,
            nextHearingAt = None, latestTestimonyAt = None\<rparr>])
     = initialState
         \<lparr>billsPerPage := 2, sort_opt := HearingDate,
          pageKeys := \<lparr>elems = [PNull, PUndefined], named = []\<rparr>,
          nextKey := PUndefined,
          previousKey := PUndefined\<rparr>"
proof -
  let ?page = "[\<lparr>bill_id = ''H1'', cosponsorCount = 3, testimonyCount = 0,
            nextHearingAt = None, latestTestimonyAt = None\<rparr>,
           \<lparr>bill_id = ''H2'', cosponsorCount = 1, testimonyCount = 4,
            nextHearingAt = None, latestTestimonyAt = Some 9\<rparr>]"
  let ?short = "[\<lparr>bill_id = ''H1'', cosponsorCount = 3, testimonyCount = 0,
            nextHearingAt = None, latestTestimonyAt = None\<rparr>]"
  let ?c = "initialState\<lparr>billsPerPage := 2, sort_opt := CosponsorCount\<rparr>"
  let ?l = "initialState\<lparr>billsPerPage := 2, sort_opt := LatestTestimony\<rparr>"
  let ?h = "initialState\<lparr>billsPerPage := 2, sort_opt := HearingDate\<rparr>"
  have pos: "0 < billsPerPage ?c" "0 < billsPerPage ?l" "0 < billsPerPage ?h"
    by (simp_all add: initialState_def)
  note c = onSuccess_stores_next_cursor [OF pos(1) refl refl refl, of ?page]
  note l = onSuccess_stores_next_cursor [OF pos(2) refl refl refl, of ?page]
  note h = onSuccess_stores_next_cursor [OF pos(3) refl refl refl, of ?short]
  have "reducer ?c (OnSuccess ?page)
          = ?c\<lparr>pageKeys := \<lparr>elems = [PNull, PKey [KNum 1, KStr ''H2'']], named = []\<rparr>,
               nextKey := PKey [KNum 1, KStr ''H2''], previousKey := PUndefined\<rparr>"
    using c by (simp add: initialState_def aget_def aset_def spread_def adjacentKeys_def
          nth_lodash_def Let_def)
  moreover have "reducer ?l (OnSuccess ?page)
          = ?l\<lparr>pageKeys := \<lparr>elems = [PNull, PKey [KTime 9, KStr ''H2'']], named = []\<rparr>,
               nextKey := PKey [KTime 9, KStr ''H2''], previousKey := PUndefined\<rparr>"
    using l by (simp add: initialState_def aget_def aset_def spread_def adjacentKeys_def
          nth_lodash_def Let_def)
  moreover have "reducer ?h (OnSuccess ?short)
          = ?h\<lparr>pageKeys := \<lparr>elems = [PNull, PUndefined], named = []\<rparr>,
               nextKey := PUndefined, previousKey := PUndefined\<rparr>"
    using h by (simp add: initialState_def aget_def aset_def spread_def adjacentKeys_def
          nth_lodash_def Let_def)
  ultimately show ?thesis by (simp add: initialState_def)
qed

subsection \<open>The invariant of the listing state\<close>

lemma page_invariant_initialState: "page_invariant initialState"
  by (simp add: page_invariant_def initialState_def aget_def)

lemma page_invariant_initialPage: "page_invariant (initialPage s)"
  by (simp add: page_invariant_def initialPage_def aget_def)

lemma page_invariant_movePage:
  assumes "page_invariant s" and "d = 1 \<or> d = - 1"
  shows "page_invariant (movePage s d)"
proof (cases "aget (pageKeys s) (currentPage s + d) = PUndefined")
  case True
  with assms(1) show ?thesis by (simp add: movePage_def Let_def)
next
  case False
  from assms(1) have plain: "named (pageKeys s) = []" and cp: "0 \<le> currentPage s"
    and zero: "aget (pageKeys s) 0 = PNull"
    by (simp_all add: page_invariant_def)
  have "0 \<le> currentPage s + d"
  proof (rule ccontr)
    assume "\<not> 0 \<le> currentPage s + d"
    then have "currentPage s + d < 0" by simp
    with plain have "aget (pageKeys s) (currentPage s + d) = PUndefined"
      by (rule aget_before_plain)
    with False show False by simp
  qed
  with False plain zero show ?thesis
    by (simp add: movePage_def Let_def page_invariant_def adjacentKeys_def)
qed

lemma page_invariant_onSuccess:
  assumes "page_invariant s"
  shows "page_invariant (reducer s (OnSuccess page))"
proof -
  from assms have cp: "0 \<le> currentPage s"
    and zero: "aget (pageKeys s) 0 = PNull"
    and cur: "currentPageKey s = aget (pageKeys s) (currentPage s)"
    by (simp_all add: page_invariant_def)
  from cp have nxt: "0 \<le> currentPage s + 1" by simp
  from cp zero cur show ?thesis
    by (simp add: page_invariant_def Let_def adjacentKeys_def aget_aset aget_spread
          named_aset_spread [OF nxt])
qed

lemma page_invariant_reducer:
  assumes "page_invariant s"
  shows "page_invariant (reducer s a)"
proof (cases a)
  case NextPage
  with assms show ?thesis by (simp add: page_invariant_movePage)
next
  case PreviousPage
  with assms show ?thesis by (simp add: page_invariant_movePage)
next
  case (Sort m)
  with assms show ?thesis by (simp add: page_invariant_initialPage)
next
  case (Filter f)
  then show ?thesis by (simp add: page_invariant_initialPage)
next
  case (OnSuccess page)
  with assms show ?thesis by (simp only: page_invariant_onSuccess)
next
  case (Error e)
  with assms show ?thesis by (simp add: page_invariant_def)
qed

lemma page_invariant_foldl:
  "page_invariant s \<Longrightarrow> page_invariant (foldl reducer s acts)"
  by (induction acts arbitrary: s) (simp_all add: page_invariant_reducer)

text \<open>
  C10. Every state that the reducer reaches from the initial state, by any sequence of
  actions, satisfies the invariant: \<^verbatim>\<open>currentPage\<close> is at least 0, \<^verbatim>\<open>pageKeys[0]\<close> is
  \<^verbatim>\<open>null\<close>, \<^verbatim>\<open>currentPageKey\<close> is \<^verbatim>\<open>pageKeys[currentPage]\<close>, \<^verbatim>\<open>nextKey\<close> is
  \<^verbatim>\<open>pageKeys[currentPage + 1]\<close> and \<^verbatim>\<open>previousKey\<close> is \<^verbatim>\<open>pageKeys[currentPage - 1]\<close>,
  each \<^verbatim>\<open>undefined\<close> when the index is out of range. Every transition of the reducer
  preserves the invariant.
\<close>

theorem page_invariant_reachable:
  "page_invariant (dispatched acts)
   \<and> (page_invariant s \<longrightarrow> page_invariant (reducer s a))"
  by (simp add: dispatched_def page_invariant_foldl page_invariant_initialState
        page_invariant_reducer)

theorem page_invariant_reachable_witness:
  "page_invariant initialState
   \<and> page_invariant (reducer initialState (Sort HearingDate))
   \<and> page_invariant (dispatched [Sort HearingDate, NextPage, OnSuccess [], PreviousPage])"
  using page_invariant_reachable
    [of "[Sort HearingDate, NextPage, OnSuccess [], PreviousPage]" initialState "Sort HearingDate"]
    page_invariant_reachable [of "[]" initialState NextPage]
  by (simp add: dispatched_def)

end
